theory Spec2Isabelle
  imports Main "HOL-Library.Sublist"
begin

section \<open>JavaScript values used by the client\<close>

text \<open>
  Strings are modelled as \<^typ>\<open>string\<close>, read as the UTF-8 bytes of the JavaScript
  string. Every literal of \<^verbatim>\<open>client.ts\<close> that the claims touch is ASCII, and on
  ASCII needles substring search, prefix tests and percent-encoding agree on UTF-16 code
  units and on UTF-8 bytes. Numbers that are interpolated into a template literal are
  integers here (\<^typ>\<open>nat\<close> for an HTTP status, \<^typ>\<open>int\<close> for caller-supplied
  counts); fractional and non-finite numbers are outside the model.
\<close>

definition digit :: "nat \<Rightarrow> char" where
  "digit n = ''0123456789'' ! n"

text \<open>\<^verbatim>\<open>`${n}`\<close> for a non-negative integer \<open>n\<close>: its decimal numeral.\<close>

function decimal :: "nat \<Rightarrow> string" where
  "decimal n = (if n < 10 then [digit n] else decimal (n div 10) @ [digit (n mod 10)])"
  by pat_completeness auto
termination
  by (relation "measure (\<lambda>n. n)") auto

declare decimal.simps [simp del]

text \<open>\<^verbatim>\<open>`${i}`\<close> for an integer \<open>i\<close>.\<close>

definition numberToString :: "int \<Rightarrow> string" where
  "numberToString i = (if i < 0 then CHR ''-'' # decimal (nat (- i)) else decimal (nat i))"

text \<open>\<^verbatim>\<open>s.includes(sub)\<close>: \<open>sub\<close> occurs in \<open>s\<close> as a contiguous substring.\<close>

fun includes_str :: "string \<Rightarrow> string \<Rightarrow> bool" where
  "includes_str [] sub = (sub = [])"
| "includes_str (c # cs) sub = (prefix sub (c # cs) \<or> includes_str cs sub)"

text \<open>\<^verbatim>\<open>xs.join(sep)\<close> on an array of strings.\<close>

fun join :: "string list \<Rightarrow> string \<Rightarrow> string" where
  "join [] sep = []"
| "join [x] sep = x"
| "join (x # y # ys) sep = x @ sep @ join (y # ys) sep"

text \<open>
  A thrown JavaScript error, with the two properties the client reads. \<^verbatim>\<open>new Error(m)\<close>
  has the name \<^verbatim>\<open>Error\<close>.
\<close>

datatype js_error = JsError (name: string) (message: string)

definition newError :: "string \<Rightarrow> js_error" where
  "newError m = JsError ''Error'' m"


section \<open>Transport: \<^verbatim>\<open>makeRequest\<close>\<close>

record ClientConfig =
  timeout :: nat
  retries :: nat
  retryDelay :: nat

text \<open>\<^verbatim>\<open>x || d\<close> on an optional number: \<^verbatim>\<open>undefined\<close> and \<^verbatim>\<open>0\<close> are falsy.\<close>

definition orDefault :: "nat option \<Rightarrow> nat \<Rightarrow> nat" where
  "orDefault x d = (case x of None \<Rightarrow> d | Some v \<Rightarrow> if v = 0 then d else v)"

text \<open>The configuration that the constructor stores (lines 15-22).\<close>

definition newConfig :: "nat option \<Rightarrow> nat option \<Rightarrow> nat option \<Rightarrow> ClientConfig" where
  "newConfig t r d =
     \<lparr>timeout = orDefault t 30000, retries = orDefault r 3, retryDelay = orDefault d 1000\<rparr>"

text \<open>
  What one \<^verbatim>\<open>fetch\<close> does, as the environment decides it: it resolves to a response with
  a status and a body text, or it rejects with an error. The abort that the timeout timer
  triggers is a rejection whose error is named \<^verbatim>\<open>AbortError\<close>; whether the timer fires
  before the response is the environment's choice, so \<open>timeout\<close> itself does not occur
  below. The request headers are the same for every fetch and are left out.
\<close>

datatype fetch_outcome =
    Response nat string
  | Rejected js_error

text \<open>\<^verbatim>\<open>response.ok\<close>: the status is in the range 200-299.\<close>

definition ok :: "nat \<Rightarrow> bool" where
  "ok st \<longleftrightarrow> 200 \<le> st \<and> st \<le> 299"

text \<open>
  The \<^verbatim>\<open>try\<close> block of \<^verbatim>\<open>makeRequest\<close> (lines 25-49) after the \<^verbatim>\<open>fetch\<close> has settled:
  \<open>Inr\<close> is the body handed to \<^verbatim>\<open>response.json()\<close>, \<open>Inl\<close> the error that reaches the
  \<^verbatim>\<open>catch\<close> clause.
\<close>

definition tryBlock :: "fetch_outcome \<Rightarrow> js_error + string" where
  "tryBlock out =
     (case out of
        Rejected e \<Rightarrow> Inl e
      | Response st errorText \<Rightarrow>
          if \<not> ok st
          then Inl (newError (''Yandex Metrika error '' @ decimal st @ '': '' @ errorText))
          else Inr errorText)"

text \<open>Lines 59-66. An empty message is falsy, and no needle occurs in it.\<close>

definition isRetryableError :: "js_error \<Rightarrow> bool" where
  "isRetryableError error \<longleftrightarrow>
     name error = ''AbortError'' \<or>
     (message error \<noteq> [] \<and> includes_str (message error) ''500'') \<or>
     (message error \<noteq> [] \<and> includes_str (message error) ''502'') \<or>
     (message error \<noteq> [] \<and> includes_str (message error) ''503'')"

text \<open>
  The observable effects of a call, in order: each \<^verbatim>\<open>fetch\<close> with its URL and each
  \<^verbatim>\<open>delay\<close> with its milliseconds.
\<close>

datatype event = Fetch string | Delay nat

text \<open>
  Lines 24-57. \<open>net n\<close> is the outcome of the fetch that attempt number \<open>n\<close> issues. The
  recursion is the source's own; it ends because a retry needs \<open>attempt < retries\<close>.
\<close>

function makeRequest ::
  "ClientConfig \<Rightarrow> (nat \<Rightarrow> fetch_outcome) \<Rightarrow> string \<Rightarrow> nat \<Rightarrow> (js_error + string) \<times> event list"
where
  "makeRequest cfg net url attempt =
     (case tryBlock (net attempt) of
        Inr body \<Rightarrow> (Inr body, [Fetch url])
      | Inl error \<Rightarrow>
          if attempt < retries cfg \<and> isRetryableError error
          then (case makeRequest cfg net url (attempt + 1) of
                  (r, evs) \<Rightarrow> (r, Fetch url # Delay (retryDelay cfg * attempt) # evs))
          else (Inl error, [Fetch url]))"
  by pat_completeness auto
termination
  by (relation "measure (\<lambda>(cfg, net, url, attempt). retries cfg - attempt)") auto

declare makeRequest.simps [simp del]




section \<open>The runtime\<close>

text \<open>
  Two things that \<^verbatim>\<open>client.ts\<close> uses are decided by the JavaScript runtime and not by
  the repository, and are parameters of the model:
  \<^item> \<open>parsesAsDate s\<close>: \<^verbatim>\<open>new Date(s)\<close> has a time value that is not \<^verbatim>\<open>NaN\<close>
    (line 110-111; the \<^verbatim>\<open>instanceof\<close> test is always true);
  \<^item> \<open>inherited k\<close>: the text that a template literal renders for the property \<open>k\<close> that
    an object literal inherits from \<^verbatim>\<open>Object.prototype\<close>, if it inherits one. Every
    such property is a function or an object, hence truthy.
\<close>

record runtime =
  parsesAsDate :: "string \<Rightarrow> bool"
  inherited :: "string \<Rightarrow> string option"


section \<open>Query builder: shared pieces\<close>

definition API_BASE :: string where
  "API_BASE = ''https://api-metrika.yandex.net''"

definition API_REPORTS :: string where
  "API_REPORTS = ''stat/v1/data''"

text \<open>The apostrophe, for string literals that end in one.\<close>

definition apostrophe :: string where
  "apostrophe = [CHR 0x27]"

text \<open>
  The guard at the head of every operation. \<open>counterId\<close> is a string, as its TypeScript
  type says, so the guard fires on the empty string.
\<close>

definition counterIdError :: js_error where
  "counterIdError = newError ''Counter ID must be a non-empty string''"

text \<open>\<^verbatim>\<open>if (v) url += `${key}${v}`\<close>: an absent or empty value adds nothing.\<close>

definition appendIf :: "string \<Rightarrow> string option \<Rightarrow> string" where
  "appendIf key v = (case v of None \<Rightarrow> [] | Some x \<Rightarrow> if x = [] then [] else key @ x)"

text \<open>
  \<^verbatim>\<open>encodeURIComponent\<close> on the UTF-8 bytes of a well-formed string: the unreserved
  characters stay, every other byte becomes \<^verbatim>\<open>%XX\<close> with upper-case hex digits.
\<close>

definition uriUnreserved :: "char \<Rightarrow> bool" where
  "uriUnreserved c \<longleftrightarrow>
     c \<in> set ''ABCDEFGHIJKLMNOPQRSTUVWXYZabcdefghijklmnopqrstuvwxyz0123456789-_.!~*'()''"

definition hexDigit :: "nat \<Rightarrow> char" where
  "hexDigit n = ''0123456789ABCDEF'' ! n"

definition percentEncode :: "char \<Rightarrow> string" where
  "percentEncode c =
     [CHR ''%'', hexDigit ((of_char c :: nat) div 16), hexDigit ((of_char c :: nat) mod 16)]"

definition encodeURIComponent :: "string \<Rightarrow> string" where
  "encodeURIComponent s = concat (map (\<lambda>c. if uriUnreserved c then [c] else percentEncode c) s)"

text \<open>The operation proper: a failed validation ends the call before any effect.\<close>

definition request ::
  "ClientConfig \<Rightarrow> (nat \<Rightarrow> fetch_outcome) \<Rightarrow> js_error + string \<Rightarrow> (js_error + string) \<times> event list"
where
  "request cfg net built =
     (case built of Inl e \<Rightarrow> (Inl e, []) | Inr url \<Rightarrow> makeRequest cfg net url 1)"


section \<open>Dates: \<^verbatim>\<open>isValidDate\<close> and \<^verbatim>\<open>getVisits\<close>\<close>

definition isDigit :: "char \<Rightarrow> bool" where
  "isDigit c \<longleftrightarrow> c \<in> set ''0123456789''"

text \<open>\<^verbatim>\<open>\d{n}\<close> and a literal character, each returning what is left of the input.\<close>

fun matchDigits :: "nat \<Rightarrow> string \<Rightarrow> string option" where
  "matchDigits 0 s = Some s"
| "matchDigits (Suc n) [] = None"
| "matchDigits (Suc n) (c # cs) = (if isDigit c then matchDigits n cs else None)"

fun matchChar :: "char \<Rightarrow> string \<Rightarrow> string option" where
  "matchChar x [] = None"
| "matchChar x (c # cs) = (if c = x then Some cs else None)"

text \<open>\<^verbatim>\<open>/^\d{4}-\d{2}-\d{2}$/.test(s)\<close>; without the \<^verbatim>\<open>m\<close> flag \<^verbatim>\<open>$\<close> is the end of input.\<close>

definition dateRegex :: "string \<Rightarrow> bool" where
  "dateRegex s \<longleftrightarrow>
     Option.bind (Option.bind (Option.bind (Option.bind (matchDigits 4 s)
       (matchChar CHR ''-'')) (matchDigits 2)) (matchChar CHR ''-'')) (matchDigits 2) = Some []"

text \<open>Lines 104-112.\<close>

definition isValidDate :: "runtime \<Rightarrow> string \<Rightarrow> bool" where
  "isValidDate rt dateString = (if \<not> dateRegex dateString then False else parsesAsDate rt dateString)"

text \<open>\<^verbatim>\<open>d && !this.isValidDate(d)\<close> on an optional string.\<close>

definition presentAndInvalid :: "runtime \<Rightarrow> string option \<Rightarrow> bool" where
  "presentAndInvalid rt d = (case d of None \<Rightarrow> False | Some x \<Rightarrow> x \<noteq> [] \<and> \<not> isValidDate rt x)"

text \<open>Lines 81-100: what \<^verbatim>\<open>getVisits\<close> does before it calls \<^verbatim>\<open>makeRequest\<close>.\<close>

definition getVisits_url :: "runtime \<Rightarrow> string \<Rightarrow> string option \<Rightarrow> string option \<Rightarrow> js_error + string" where
  "getVisits_url rt counterId dateFrom dateTo =
     (if counterId = [] then Inl counterIdError
      else if presentAndInvalid rt dateFrom
        then Inl (newError ''dateFrom must be in YYYY-MM-DD format'')
      else if presentAndInvalid rt dateTo
        then Inl (newError ''dateTo must be in YYYY-MM-DD format'')
      else Inr (API_BASE @ ''/'' @ API_REPORTS @ ''?ids='' @ counterId @ ''&metrics=ym:s:visits''))"

definition getVisits ::
  "runtime \<Rightarrow> ClientConfig \<Rightarrow> (nat \<Rightarrow> fetch_outcome) \<Rightarrow> string \<Rightarrow> string option \<Rightarrow> string option
   \<Rightarrow> (js_error + string) \<times> event list"
where
  "getVisits rt cfg net counterId dateFrom dateTo =
     request cfg net (getVisits_url rt counterId dateFrom dateTo)"


section \<open>Operations with a filter expression\<close>

text \<open>Lines 191-198.\<close>

definition getTrafficSourcesTypes_url :: "string \<Rightarrow> js_error + string" where
  "getTrafficSourcesTypes_url counterId =
     (if counterId = [] then Inl counterIdError
      else Inr (API_BASE @ ''/'' @ API_REPORTS
        @ ''?dimensions=ym:s:lastTrafficSource&metrics=ym:s:visits,ym:s:users''
        @ ''&filters=ym:s:lastTrafficSource=.('organic','direct','referral')&id=''
        @ counterId @ ''&lang=ru''))"

text \<open>Lines 205-211: the value of the variable \<^verbatim>\<open>filters\<close>.\<close>

definition searchEnginesFilters :: "bool \<Rightarrow> bool \<Rightarrow> string" where
  "searchEnginesFilters excludeRobots newUsersOnly =
     ''ym:s:trafficSource=='organic'' @ apostrophe
     @ (if excludeRobots then '' AND ym:s:isRobot=='No'' @ apostrophe else [])
     @ (if newUsersOnly then '' AND ym:s:isNewUser=='Yes'' @ apostrophe else [])"

text \<open>Lines 200-215. An absent flag takes its default \<^verbatim>\<open>false\<close>.\<close>

definition getSearchEnginesData_url :: "string \<Rightarrow> bool option \<Rightarrow> bool option \<Rightarrow> js_error + string" where
  "getSearchEnginesData_url counterId excludeRobots newUsersOnly =
     (if counterId = [] then Inl counterIdError
      else Inr (API_BASE @ ''/'' @ API_REPORTS
        @ ''?dimensions=ym:s:searchEngine&metrics=ym:s:visits,ym:s:users&filters=''
        @ encodeURIComponent
            (searchEnginesFilters (case excludeRobots of None \<Rightarrow> False | Some b \<Rightarrow> b)
               (case newUsersOnly of None \<Rightarrow> False | Some b \<Rightarrow> b))
        @ ''&id='' @ counterId))"

text \<open>The default city list of line 217, as UTF-8 bytes.\<close>

definition defaultCities :: "string list" where
  "defaultCities =
     [[CHR 0xD0, CHR 0x9C, CHR 0xD0, CHR 0xBE, CHR 0xD1, CHR 0x81, CHR 0xD0, CHR 0xBA,
       CHR 0xD0, CHR 0xB2, CHR 0xD0, CHR 0xB0],
      [CHR 0xD0, CHR 0xA1, CHR 0xD0, CHR 0xB0, CHR 0xD0, CHR 0xBD, CHR 0xD0, CHR 0xBA,
       CHR 0xD1, CHR 0x82, CHR 0x2D, CHR 0xD0, CHR 0x9F, CHR 0xD0, CHR 0xB5, CHR 0xD1,
       CHR 0x82, CHR 0xD0, CHR 0xB5, CHR 0xD1, CHR 0x80, CHR 0xD0, CHR 0xB1, CHR 0xD1,
       CHR 0x83, CHR 0xD1, CHR 0x80, CHR 0xD0, CHR 0xB3]]"

text \<open>Lines 222-223.\<close>

definition regionalFilters :: "string list \<Rightarrow> string" where
  "regionalFilters cities =
     ''ym:s:regionCityName=.('' @ join (map (\<lambda>city. apostrophe @ city @ apostrophe) cities) '',''
     @ '')''"

text \<open>Lines 217-227.\<close>

definition getRegionalData_url :: "string \<Rightarrow> string list option \<Rightarrow> js_error + string" where
  "getRegionalData_url counterId cities =
     (if counterId = [] then Inl counterIdError
      else Inr (API_BASE @ ''/'' @ API_REPORTS @ ''?metrics=ym:s:visits,ym:s:users&filters=''
        @ encodeURIComponent
            (regionalFilters (case cities of None \<Rightarrow> defaultCities | Some cs \<Rightarrow> cs))
        @ ''&id='' @ counterId @ ''&lang=ru''))"

text \<open>Line 234.\<close>

definition pageDepthFilters :: "int \<Rightarrow> string" where
  "pageDepthFilters minPages = ''ym:s:pageViews>'' @ numberToString minPages"

text \<open>Lines 229-237.\<close>

definition getPageDepthAnalysis_url :: "string \<Rightarrow> int option \<Rightarrow> js_error + string" where
  "getPageDepthAnalysis_url counterId minPages =
     (if counterId = [] then Inl counterIdError
      else Inr (API_BASE @ ''/'' @ API_REPORTS @ ''?metrics=ym:s:visits&filters=''
        @ encodeURIComponent (pageDepthFilters (case minPages of None \<Rightarrow> 5 | Some n \<Rightarrow> n))
        @ ''&id='' @ counterId))"

text \<open>Lines 285-295.\<close>

definition getOrganicSearchPerformance_url ::
  "string \<Rightarrow> string option \<Rightarrow> string option \<Rightarrow> js_error + string"
where
  "getOrganicSearchPerformance_url counterId dateFrom dateTo =
     (if counterId = [] then Inl counterIdError
      else Inr (API_BASE @ ''/'' @ API_REPORTS
        @ ''?dimensions=ym:s:searchEngine,ym:s:searchPhrase''
        @ ''&metrics=ym:s:visits,ym:s:users,ym:s:pageviews''
        @ ''&filters=ym:s:trafficSource=='organic'' @ apostrophe @ ''&id='' @ counterId
        @ appendIf ''&date1='' dateFrom @ appendIf ''&date2='' dateTo))"


text \<open>Lines 342-352.\<close>

definition getContentAnalyticsArticles_url ::
  "string \<Rightarrow> string option \<Rightarrow> string option \<Rightarrow> js_error + string"
where
  "getContentAnalyticsArticles_url counterId dateFrom dateTo =
     (if counterId = [] then Inl counterIdError
      else Inr (API_BASE @ ''/'' @ API_REPORTS @ ''?ids='' @ counterId
        @ ''&dimensions=ym:s:publisherArticle&metrics=ym:s:publisherviews''
        @ ''&filters=(ym:s:publisherArticle!n)&sort=-ym:s:publisherviews''
        @ appendIf ''&date1='' dateFrom @ appendIf ''&date2='' dateTo))"


section \<open>Attribution: \<^verbatim>\<open>buildDimensionNameWithAttribution\<close>\<close>

text \<open>Lines 366-377, in the order of the object literal (the order of \<^verbatim>\<open>Object.keys\<close>).\<close>

definition attributionPrefixMap :: "(string \<times> string) list" where
  "attributionPrefixMap =
     [(''automatic'', ''automatic''),
      (''last'', ''last''),
      (''first'', ''first''),
      (''lastsign'', ''lastsign''),
      (''last_yandex_direct_click'', ''last_yandex_direct_click''),
      (''cross_device_first'', ''cross_device_first''),
      (''cross_device_last'', ''cross_device_last''),
      (''cross_device_last_significant'', ''cross_device_last_significant''),
      (''cross_device_last_yandex_direct_click'', ''cross_device_last_yandex_direct_click'')]"

text \<open>
  \<^verbatim>\<open>attributionPrefixMap[attribution]\<close>: an own property first, then the prototype chain.
\<close>

definition lookupPrefix :: "runtime \<Rightarrow> string \<Rightarrow> string option" where
  "lookupPrefix rt attribution =
     (case map_of attributionPrefixMap attribution of
        Some p \<Rightarrow> Some p
      | None \<Rightarrow> inherited rt attribution)"

text \<open>
  The line terminators that \<^verbatim>\<open>.\<close> does not match: LF, CR, and U+2028 and U+2029 in
  their UTF-8 form.
\<close>

definition hasLineTerminator :: "string \<Rightarrow> bool" where
  "hasLineTerminator r \<longleftrightarrow>
     CHR 0x0A \<in> set r \<or> CHR 0x0D \<in> set r \<or>
     includes_str r [CHR 0xE2, CHR 0x80, CHR 0xA8] \<or>
     includes_str r [CHR 0xE2, CHR 0x80, CHR 0xA9]"

text \<open>\<^verbatim>\<open>(.+)$\<close> against all that is left of the input.\<close>

definition dotPlusEnd :: "string \<Rightarrow> bool" where
  "dotPlusEnd r \<longleftrightarrow> r \<noteq> [] \<and> \<not> hasLineTerminator r"

text \<open>The alternatives of the pattern of line 390, in its order.\<close>

definition recognizedPrefixes :: "string list" where
  "recognizedPrefixes =
     [''automatic'', ''last'', ''first'', ''lastsign'',
      ''last_yandex_direct_click'', ''lastYandexDirectClick'',
      ''cross_device_first'', ''crossDeviceFirst'',
      ''cross_device_last'', ''crossDeviceLast'',
      ''cross_device_last_significant'', ''crossDeviceLastSignificant'',
      ''cross_device_last_yandex_direct_click'', ''crossDeviceLastYandexDirectClick'']"

text \<open>
  A backtracking matcher tries the alternatives from left to right and keeps the first one
  after which the rest of the pattern, \<^verbatim>\<open>(.+)$\<close>, matches. The result is the pair of
  the two capture groups.
\<close>

fun firstAlternative :: "string list \<Rightarrow> string \<Rightarrow> (string \<times> string) option" where
  "firstAlternative [] s = None"
| "firstAlternative (a # alts) s =
     (if prefix a s \<and> dotPlusEnd (drop (length a) s) then Some (a, drop (length a) s)
      else firstAlternative alts s)"

definition dimensionPattern :: "string \<Rightarrow> (string \<times> string) option" where
  "dimensionPattern dimension =
     (if prefix ''ym:s:'' dimension then firstAlternative recognizedPrefixes (drop 5 dimension)
      else None)"

text \<open>\<^verbatim>\<open>/^ym:s:(.+)$/\<close> of line 398, with its capture group.\<close>

definition basePattern :: "string \<Rightarrow> string option" where
  "basePattern dimension =
     (if prefix ''ym:s:'' dimension \<and> dotPlusEnd (drop 5 dimension) then Some (drop 5 dimension)
      else None)"

text \<open>
  Lines 359-405. The default of the parameter \<^verbatim>\<open>attribution\<close> is never used: the only
  caller passes a truthy string.
\<close>

definition buildDimensionNameWithAttribution :: "runtime \<Rightarrow> string \<Rightarrow> string \<Rightarrow> js_error + string" where
  "buildDimensionNameWithAttribution rt dimension attribution =
     (case lookupPrefix rt attribution of
        None \<Rightarrow>
          Inl (newError (''Invalid attribution: '' @ attribution @ ''. Must be one of: ''
                 @ join (map fst attributionPrefixMap) '', ''))
      | Some prefix' \<Rightarrow>
          (case dimensionPattern dimension of
             Some (m1, m2) \<Rightarrow> Inr (''ym:s:'' @ prefix' @ m2)
           | None \<Rightarrow>
               (case basePattern dimension of
                  Some base \<Rightarrow> Inr (''ym:s:'' @ prefix' @ base)
                | None \<Rightarrow> Inr dimension)))"


section \<open>The time-series operation: \<^verbatim>\<open>getDataByTime\<close>\<close>

text \<open>\<^verbatim>\<open>dimensions.map(dim => ...)\<close>: the first element that throws ends the loop.\<close>

fun mapDimensions :: "runtime \<Rightarrow> string list \<Rightarrow> string \<Rightarrow> js_error + string list" where
  "mapDimensions rt [] attribution = Inr []"
| "mapDimensions rt (dim # dims) attribution =
     (case buildDimensionNameWithAttribution rt dim attribution of
        Inl e \<Rightarrow> Inl e
      | Inr d \<Rightarrow>
          (case mapDimensions rt dims attribution of
             Inl e \<Rightarrow> Inl e
           | Inr ds \<Rightarrow> Inr (d # ds)))"

text \<open>Lines 437-442: the value of \<^verbatim>\<open>processedDimensions\<close>.\<close>

definition processDimensions ::
  "runtime \<Rightarrow> string list option \<Rightarrow> string option \<Rightarrow> js_error + string list option"
where
  "processDimensions rt dimensions attribution =
     (case attribution of
        None \<Rightarrow> Inr dimensions
      | Some a \<Rightarrow>
          (case dimensions of
             None \<Rightarrow> Inr dimensions
           | Some dims \<Rightarrow>
               if a \<noteq> [] \<and> length dims > 0
               then (case mapDimensions rt dims a of
                       Inl e \<Rightarrow> Inl e
                     | Inr ds \<Rightarrow> Inr (Some ds))
               else Inr dimensions))"

text \<open>Lines 444-451: the URL, from the values that passed the checks.\<close>

definition byTimeUrl ::
  "string \<Rightarrow> string list \<Rightarrow> string \<Rightarrow> int \<Rightarrow> string option \<Rightarrow> string option \<Rightarrow> string list option
   \<Rightarrow> string option \<Rightarrow> string"
where
  "byTimeUrl counterId metrics group' topKeys dateFrom dateTo processedDimensions timezone =
     API_BASE @ ''/'' @ API_REPORTS @ ''/bytime?ids='' @ counterId
     @ ''&metrics='' @ join metrics '','' @ ''&group='' @ group'
     @ ''&top_keys='' @ numberToString topKeys
     @ appendIf ''&date1='' dateFrom @ appendIf ''&date2='' dateTo
     @ (case processedDimensions of
          None \<Rightarrow> []
        | Some ds \<Rightarrow> if length ds > 0 then ''&dimensions='' @ join ds '','' else [])
     @ (case timezone of
          None \<Rightarrow> []
        | Some tz \<Rightarrow> if tz = [] then [] else ''&timezone='' @ encodeURIComponent tz)"

text \<open>
  Lines 407-454: what \<^verbatim>\<open>getDataByTime\<close> does before it calls \<^verbatim>\<open>makeRequest\<close>. An absent
  \<open>metrics\<close> is \<^verbatim>\<open>undefined\<close>; an absent \<open>group\<close> is \<^verbatim>\<open>'day'\<close> and an absent \<open>topKeys\<close>
  is 7.
\<close>

definition getDataByTime_url ::
  "runtime \<Rightarrow> string \<Rightarrow> string list option \<Rightarrow> string option \<Rightarrow> string option
   \<Rightarrow> string list option \<Rightarrow> string option \<Rightarrow> int option \<Rightarrow> string option \<Rightarrow> string option
   \<Rightarrow> js_error + string"
where
  "getDataByTime_url rt counterId metrics dateFrom dateTo dimensions group' topKeys timezone
       attribution =
     (if counterId = [] then Inl counterIdError
      else case metrics of
        None \<Rightarrow> Inl (newError ''At least one metric is required'')
      | Some ms \<Rightarrow>
          if length ms = 0 then Inl (newError ''At least one metric is required'')
          else if length ms > 20 then Inl (newError ''Maximum 20 metrics allowed per request'')
          else if (case dimensions of None \<Rightarrow> False | Some dims \<Rightarrow> length dims > 10)
            then Inl (newError ''Maximum 10 dimensions allowed per request'')
          else (case processDimensions rt dimensions attribution of
                  Inl e \<Rightarrow> Inl e
                | Inr processedDimensions \<Rightarrow>
                    Inr (byTimeUrl counterId ms
                           (case group' of None \<Rightarrow> ''day'' | Some g \<Rightarrow> g)
                           (case topKeys of None \<Rightarrow> 7 | Some k \<Rightarrow> k)
                           dateFrom dateTo processedDimensions timezone)))"

definition getDataByTime ::
  "runtime \<Rightarrow> ClientConfig \<Rightarrow> (nat \<Rightarrow> fetch_outcome) \<Rightarrow> string \<Rightarrow> string list option
   \<Rightarrow> string option \<Rightarrow> string option \<Rightarrow> string list option \<Rightarrow> string option \<Rightarrow> int option
   \<Rightarrow> string option \<Rightarrow> string option \<Rightarrow> (js_error + string) \<times> event list"
where
  "getDataByTime rt cfg net counterId metrics dateFrom dateTo dimensions group' topKeys timezone
       attribution =
     request cfg net
       (getDataByTime_url rt counterId metrics dateFrom dateTo dimensions group' topKeys timezone
          attribution)"


section \<open>A runtime to evaluate with\<close>

text \<open>
  Closed instances need a concrete runtime. This one accepts a date string whose month is
  01-12 and whose day is 01-31, and gives every object the twelve inherited property names
  of \<^verbatim>\<open>Object.prototype\<close>. No theorem about all runtimes depends on it.
\<close>

definition twoDigits :: "string \<Rightarrow> nat" where
  "twoDigits s = 10 * (of_char (s ! 0) - 48) + (of_char (s ! 1) - 48)"

definition sampleParsesAsDate :: "string \<Rightarrow> bool" where
  "sampleParsesAsDate s \<longleftrightarrow>
     dateRegex s \<and>
     1 \<le> twoDigits (take 2 (drop 5 s)) \<and> twoDigits (take 2 (drop 5 s)) \<le> 12 \<and>
     1 \<le> twoDigits (drop 8 s) \<and> twoDigits (drop 8 s) \<le> 31"

definition objectPrototype :: "(string \<times> string) list" where
  "objectPrototype =
     [(''constructor'', ''function Object() { [native code] }''),
      (''hasOwnProperty'', ''function hasOwnProperty() { [native code] }''),
      (''isPrototypeOf'', ''function isPrototypeOf() { [native code] }''),
      (''propertyIsEnumerable'', ''function propertyIsEnumerable() { [native code] }''),
      (''toLocaleString'', ''function toLocaleString() { [native code] }''),
      (''toString'', ''function toString() { [native code] }''),
      (''valueOf'', ''function valueOf() { [native code] }''),
      (''__proto__'', ''[object Object]''),
      (''__defineGetter__'', ''function __defineGetter__() { [native code] }''),
      (''__defineSetter__'', ''function __defineSetter__() { [native code] }''),
      (''__lookupGetter__'', ''function __lookupGetter__() { [native code] }''),
      (''__lookupSetter__'', ''function __lookupSetter__() { [native code] }'')]"

definition sampleRuntime :: runtime where
  "sampleRuntime = \<lparr>parsesAsDate = sampleParsesAsDate, inherited = map_of objectPrototype\<rparr>"


text \<open>A server that answers every request with status 200 and an empty JSON object.\<close>

definition sampleNet :: "nat \<Rightarrow> fetch_outcome" where
  "sampleNet n = Response 200 ''{}''"


section \<open>Reading a URL\<close>

text \<open>
  These functions are not code of the client. They say how the receiving side reads a URL:
  the query string follows the first \<^verbatim>\<open>?\<close>, its parameters are separated by \<^verbatim>\<open>&\<close>, a
  parameter's key ends at its first \<^verbatim>\<open>=\<close>, and a value is percent-decoded byte by byte.
  The theorems use them to say what a URL carries as a query parameter.
\<close>

function splitOn :: "char \<Rightarrow> string \<Rightarrow> string list" where
  "splitOn c s =
     takeWhile (\<lambda>x. x \<noteq> c) s #
     (case dropWhile (\<lambda>x. x \<noteq> c) s of [] \<Rightarrow> [] | x # rest \<Rightarrow> splitOn c rest)"
  by pat_completeness auto
termination
proof (relation "measure (\<lambda>(c, s). length s)")
  show "wf (measure (\<lambda>(c, s). length s))" by simp
next
  fix c :: char and s x rest
  assume "dropWhile (\<lambda>x. x \<noteq> c) s = x # rest"
  then have "length (x # rest) \<le> length s"
    by (metis length_dropWhile_le)
  then show "((c, rest), (c, s)) \<in> measure (\<lambda>(c, s). length s)" by simp
qed

declare splitOn.simps [simp del]

definition queryString :: "string \<Rightarrow> string" where
  "queryString url = drop 1 (dropWhile (\<lambda>x. x \<noteq> CHR ''?'') url)"

definition keyValue :: "string \<Rightarrow> string \<times> string" where
  "keyValue p = (takeWhile (\<lambda>x. x \<noteq> CHR ''='') p, drop 1 (dropWhile (\<lambda>x. x \<noteq> CHR ''='') p))"

definition queryParams :: "string \<Rightarrow> (string \<times> string) list" where
  "queryParams url = map keyValue (splitOn CHR ''&'' (queryString url))"

definition queryValue :: "string \<Rightarrow> string \<Rightarrow> string option" where
  "queryValue key url = map_of (queryParams url) key"

definition hexValue :: "char \<Rightarrow> nat option" where
  "hexValue c = map_of (zip ''0123456789ABCDEF'' [0..<16]) c"

fun percentDecode :: "string \<Rightarrow> string option" where
  "percentDecode [] = Some []"
| "percentDecode [c] = (if c = CHR ''%'' then None else Some [c])"
| "percentDecode [c, d] = (if c = CHR ''%'' then None else map_option ((#) c) (percentDecode [d]))"
| "percentDecode (c # h # l # rest) =
     (if c = CHR ''%''
      then (case (hexValue h, hexValue l) of
              (Some a, Some b) \<Rightarrow> map_option ((#) (char_of (16 * a + b))) (percentDecode rest)
            | _ \<Rightarrow> None)
      else map_option ((#) c) (percentDecode (h # l # rest)))"





section \<open>Facts about strings\<close>




lemma decimal_404: "decimal 404 = ''404''"
  by (simp add: decimal.simps digit_def)





section \<open>Retry behaviour\<close>


lemma makeRequest_final:
  "tryBlock (net a) = Inl e \<Longrightarrow> \<not> (a < retries cfg \<and> isRetryableError e) \<Longrightarrow>
   makeRequest cfg net url a = (Inl e, [Fetch url])"
  by (subst makeRequest.simps) auto




text \<open>
  C1, evaluated at a failing input. The default configuration allows three attempts. A 404
  response whose body text happens to contain the digits 503 is classified as retryable,
  because the test looks for the digits anywhere in the message, and the message embeds
  the body: the call makes three attempts instead of one.
\<close>

theorem makeRequest_404_retried_on_body_text:
  "makeRequest (newConfig None None None) (\<lambda>n. Response 404 ''No data for counter 15038'')
     ''https://api-metrika.yandex.net/management/v1/counter/15038'' 1 =
     (Inl (JsError ''Error'' ''Yandex Metrika error 404: No data for counter 15038''),
      [Fetch ''https://api-metrika.yandex.net/management/v1/counter/15038'', Delay 1000,
       Fetch ''https://api-metrika.yandex.net/management/v1/counter/15038'', Delay 2000,
       Fetch ''https://api-metrika.yandex.net/management/v1/counter/15038''])"
  by (simp add: makeRequest.simps tryBlock_def ok_def decimal.simps digit_def
      isRetryableError_def newError_def newConfig_def orDefault_def)

text \<open>
  With a body that contains none of the three digit groups, the same 404 is final after one
  attempt, and the failure carries the status and the body text.
\<close>

lemma message_404_needles:
  "includes_str (''Yandex Metrika error 404: '' @ body) ''500'' = includes_str body ''500''"
  "includes_str (''Yandex Metrika error 404: '' @ body) ''502'' = includes_str body ''502''"
  "includes_str (''Yandex Metrika error 404: '' @ body) ''503'' = includes_str body ''503''"
  by simp_all

lemma makeRequest_404_once:
  assumes "net 1 = Response 404 body"
    and "\<not> includes_str body ''500''" and "\<not> includes_str body ''502''"
    and "\<not> includes_str body ''503''"
  shows "makeRequest cfg net url 1 =
           (Inl (newError (''Yandex Metrika error 404: '' @ body)), [Fetch url])"
proof -
  have t: "tryBlock (net 1) = Inl (newError (''Yandex Metrika error 404: '' @ body))"
    using assms(1) by (simp add: tryBlock_def ok_def decimal_404)
  have "\<not> isRetryableError (newError (''Yandex Metrika error 404: '' @ body))"
    using assms(2-4) message_404_needles [of body]
    by (simp add: isRetryableError_def newError_def)
  then have "\<not> (1 < retries cfg \<and>
      isRetryableError (newError (''Yandex Metrika error 404: '' @ body)))"
    by simp
  from makeRequest_final [where net = net and a = 1, OF t this] show ?thesis .
qed


section \<open>The attribution rewriter\<close>

lemma lookupPrefix_own:
  "a \<in> set (map fst attributionPrefixMap) \<Longrightarrow> lookupPrefix rt a = Some a"
  by (auto simp: lookupPrefix_def attributionPrefixMap_def)

lemma firstAlternative_Nil: "firstAlternative alts [] = None"
  by (induction alts) (simp_all add: dotPlusEnd_def)

lemma no_base_no_match:
  assumes "\<not> (\<exists>r. r \<noteq> [] \<and> d = ''ym:s:'' @ r)"
  shows "dimensionPattern d = None" and "basePattern d = None"
proof -
  have *: "drop 5 d = []" if "prefix ''ym:s:'' d"
  proof -
    from that obtain r where r: "d = ''ym:s:'' @ r" by (auto simp: prefix_def)
    with assms have "r = []" by blast
    with r show ?thesis by simp
  qed
  show "dimensionPattern d = None"
    by (simp add: dimensionPattern_def * firstAlternative_Nil)
  show "basePattern d = None"
    using * by (auto simp: basePattern_def dotPlusEnd_def)
qed

text \<open>
  C10. A dimension that is not \<^verbatim>\<open>ym:s:\<close> followed by at least one character, such as
  \<^verbatim>\<open>ym:u:age\<close> or the empty string, comes back unchanged for each of the nine models:
  nothing is inserted and nothing is thrown.
\<close>

theorem buildDimension_unchanged_outside_ym_s:
  assumes "\<not> (\<exists>r. r \<noteq> [] \<and> dimension = ''ym:s:'' @ r)"
    and "attribution \<in> set (map fst attributionPrefixMap)"
  shows "buildDimensionNameWithAttribution rt dimension attribution = Inr dimension"
  using no_base_no_match [OF assms(1)] lookupPrefix_own [OF assms(2)]
  by (simp add: buildDimensionNameWithAttribution_def)

theorem buildDimension_unchanged_outside_ym_s_witness:
  "\<not> (\<exists>r. r \<noteq> [] \<and> ''ym:u:age'' = ''ym:s:'' @ r)
   \<and> ''first'' \<in> set (map fst attributionPrefixMap)
   \<and> buildDimensionNameWithAttribution sampleRuntime ''ym:u:age'' ''first'' = Inr ''ym:u:age''
   \<and> \<not> (\<exists>r. r \<noteq> [] \<and> [] = ''ym:s:'' @ r)
   \<and> ''cross_device_last'' \<in> set (map fst attributionPrefixMap)
   \<and> buildDimensionNameWithAttribution sampleRuntime [] ''cross_device_last'' = Inr []"
proof -
  have h1: "\<not> (\<exists>r. r \<noteq> [] \<and> ''ym:u:age'' = ''ym:s:'' @ r)" by simp
  have a1: "''first'' \<in> set (map fst attributionPrefixMap)"
    by (simp add: attributionPrefixMap_def)
  have h2: "\<not> (\<exists>r. r \<noteq> [] \<and> [] = ''ym:s:'' @ r)" by simp
  have a2: "''cross_device_last'' \<in> set (map fst attributionPrefixMap)"
    by (simp add: attributionPrefixMap_def)
  show ?thesis
    using h1 a1 h2 a2
      buildDimension_unchanged_outside_ym_s [OF h1 a1, of sampleRuntime]
      buildDimension_unchanged_outside_ym_s [OF h2 a2, of sampleRuntime]
    by simp
qed

section \<open>Validation in \<^verbatim>\<open>getDataByTime\<close>\<close>

lemma makeRequest_first_event: "\<exists>evs. snd (makeRequest cfg net url a) = Fetch url # evs"
  by (subst makeRequest.simps) (auto split: sum.split prod.split)

lemma request_Inl: "request cfg net (Inl e) = (Inl e, [])"
  by (simp add: request_def)

lemma request_Inr: "request cfg net (Inr url) = makeRequest cfg net url 1"
  by (simp add: request_def)

lemma build_own_succeeds:
  "a \<in> set (map fst attributionPrefixMap) \<Longrightarrow>
   \<exists>d'. buildDimensionNameWithAttribution rt d a = Inr d'"
  by (simp add: buildDimensionNameWithAttribution_def lookupPrefix_own
      split: option.split prod.split)

lemma mapDimensions_own_succeeds:
  "a \<in> set (map fst attributionPrefixMap) \<Longrightarrow>
   \<exists>ds'. mapDimensions rt ds a = Inr ds' \<and> length ds' = length ds"
proof (induction ds)
  case Nil
  then show ?case by simp
next
  case (Cons d ds)
  from build_own_succeeds [OF Cons.prems] obtain d' where
    "buildDimensionNameWithAttribution rt d a = Inr d'" by blast
  moreover from Cons obtain ds' where "mapDimensions rt ds a = Inr ds'" "length ds' = length ds"
    by blast
  ultimately show ?case by simp
qed

lemma processDimensions_succeeds:
  assumes "attribution = None \<or> (\<exists>a. attribution = Some a \<and> a \<in> set (map fst attributionPrefixMap))"
  shows "\<exists>pd. processDimensions rt dimensions attribution = Inr pd"
proof (cases attribution)
  case None
  then show ?thesis by (simp add: processDimensions_def)
next
  case (Some a)
  with assms have a: "a \<in> set (map fst attributionPrefixMap)" by simp
  show ?thesis
  proof (cases dimensions)
    case None
    with Some show ?thesis by (simp add: processDimensions_def)
  next
    case (Some ds)
    from mapDimensions_own_succeeds [OF a] obtain ds' where "mapDimensions rt ds a = Inr ds'"
      by blast
    with Some \<open>attribution = Some a\<close> show ?thesis by (simp add: processDimensions_def)
  qed
qed

lemma getDataByTime_url_accepts:
  assumes "counterId \<noteq> []" and "metrics = Some ms" and "1 \<le> length ms" and "length ms \<le> 20"
    and "dimensions = None \<or> (\<exists>ds. dimensions = Some ds \<and> length ds \<le> 10)"
    and "attribution = None \<or> (\<exists>a. attribution = Some a \<and> a \<in> set (map fst attributionPrefixMap))"
  shows "\<exists>url. getDataByTime_url rt counterId metrics dateFrom dateTo dimensions g topKeys
            timezone attribution = Inr url"
proof -
  from processDimensions_succeeds [OF assms(6)] obtain pd where
    "processDimensions rt dimensions attribution = Inr pd" by blast
  with assms(1-5) show ?thesis
    by (auto simp: getDataByTime_url_def)
qed

lemma getDataByTime_url_rejects_metrics:
  assumes "metrics = None \<or> (\<exists>ms. metrics = Some ms \<and> (length ms = 0 \<or> length ms > 20))"
  shows "\<exists>msg. getDataByTime_url rt counterId metrics dateFrom dateTo dimensions g topKeys
            timezone attribution = Inl (newError msg)"
  using assms by (auto simp: getDataByTime_url_def counterIdError_def)

lemma getDataByTime_url_rejects_dimensions:
  assumes "dimensions = Some ds" and "length ds > 10"
  shows "\<exists>msg. getDataByTime_url rt counterId metrics dateFrom dateTo dimensions g topKeys
            timezone attribution = Inl (newError msg)"
  using assms by (auto simp: getDataByTime_url_def counterIdError_def split: option.split)

text \<open>
  C9. In \<^verbatim>\<open>getDataByTime\<close>, a metrics list that is absent, empty or 21 long makes
  the call fail with a validation error and without any effect, and so does a dimensions
  list that is 11 long. A metrics list that is 20 long, and a dimensions list that is 10
  long, pass: with a counter id and the other list in range and an attribution of the
  declared type, the call goes on to \<^verbatim>\<open>makeRequest\<close>, whose first effect is the fetch.
\<close>

theorem getDataByTime_list_bounds:
  "((metrics = None \<or> metrics = Some [] \<or> metrics = Some ms \<and> length ms = 21)
      \<longrightarrow> (\<exists>msg. getDataByTime rt cfg net counterId metrics dateFrom dateTo dimensions g topKeys
                   timezone attribution = (Inl (newError msg), [])))
   \<and> (dimensions = Some ds \<and> length ds = 11
      \<longrightarrow> (\<exists>msg. getDataByTime rt cfg net counterId metrics dateFrom dateTo dimensions g topKeys
                   timezone attribution = (Inl (newError msg), [])))
   \<and> (counterId \<noteq> [] \<and> metrics = Some ms \<and> length ms = 20
       \<and> (dimensions = None \<or> dimensions = Some ds \<and> length ds \<le> 10)
       \<and> (attribution = None \<or> attribution = Some a \<and> a \<in> set (map fst attributionPrefixMap))
      \<longrightarrow> (\<exists>url evs. getDataByTime rt cfg net counterId metrics dateFrom dateTo dimensions g
                   topKeys timezone attribution = makeRequest cfg net url 1
                 \<and> snd (makeRequest cfg net url 1) = Fetch url # evs))
   \<and> (counterId \<noteq> [] \<and> metrics = Some ms \<and> 1 \<le> length ms \<and> length ms \<le> 20
       \<and> dimensions = Some ds \<and> length ds = 10
       \<and> (attribution = None \<or> attribution = Some a \<and> a \<in> set (map fst attributionPrefixMap))
      \<longrightarrow> (\<exists>url evs. getDataByTime rt cfg net counterId metrics dateFrom dateTo dimensions g
                   topKeys timezone attribution = makeRequest cfg net url 1
                 \<and> snd (makeRequest cfg net url 1) = Fetch url # evs))"
proof -
  let ?call = "getDataByTime rt cfg net counterId metrics dateFrom dateTo dimensions g topKeys
                 timezone attribution"
  let ?built = "getDataByTime_url rt counterId metrics dateFrom dateTo dimensions g topKeys
                  timezone attribution"
  have fails: "\<exists>msg. ?call = (Inl (newError msg), [])" if "\<exists>msg. ?built = Inl (newError msg)"
    using that by (auto simp: getDataByTime_def request_Inl)
  have sends: "\<exists>url evs. ?call = makeRequest cfg net url 1
                 \<and> snd (makeRequest cfg net url 1) = Fetch url # evs"
    if "\<exists>url. ?built = Inr url"
  proof -
    from that obtain url where "?built = Inr url" by blast
    then have "?call = makeRequest cfg net url 1"
      by (simp add: getDataByTime_def request_Inr)
    with makeRequest_first_event [of cfg net url 1] show ?thesis by blast
  qed
  have c1: "\<exists>msg. ?call = (Inl (newError msg), [])"
    if "metrics = None \<or> metrics = Some [] \<or> metrics = Some ms \<and> length ms = 21"
  proof -
    from that
    have "metrics = None \<or> (\<exists>ms. metrics = Some ms \<and> (length ms = 0 \<or> length ms > 20))"
      by auto
    from fails [OF getDataByTime_url_rejects_metrics [OF this]] show ?thesis .
  qed
  have c2: "\<exists>msg. ?call = (Inl (newError msg), [])"
    if "dimensions = Some ds \<and> length ds = 11"
  proof -
    from that have "dimensions = Some ds" "length ds > 10" by auto
    from fails [OF getDataByTime_url_rejects_dimensions [OF this]] show ?thesis .
  qed
  have c3: "\<exists>url evs. ?call = makeRequest cfg net url 1
                 \<and> snd (makeRequest cfg net url 1) = Fetch url # evs"
    if "counterId \<noteq> [] \<and> metrics = Some ms \<and> length ms = 20
       \<and> (dimensions = None \<or> dimensions = Some ds \<and> length ds \<le> 10)
       \<and> (attribution = None \<or> attribution = Some a \<and> a \<in> set (map fst attributionPrefixMap))"
  proof -
    from that have "counterId \<noteq> []" "metrics = Some ms" "1 \<le> length ms" "length ms \<le> 20"
      "dimensions = None \<or> (\<exists>ds. dimensions = Some ds \<and> length ds \<le> 10)"
      "attribution = None \<or> (\<exists>a. attribution = Some a \<and> a \<in> set (map fst attributionPrefixMap))"
      by auto
    from sends [OF getDataByTime_url_accepts [OF this]] show ?thesis .
  qed
  have c4: "\<exists>url evs. ?call = makeRequest cfg net url 1
                 \<and> snd (makeRequest cfg net url 1) = Fetch url # evs"
    if "counterId \<noteq> [] \<and> metrics = Some ms \<and> 1 \<le> length ms \<and> length ms \<le> 20
       \<and> dimensions = Some ds \<and> length ds = 10
       \<and> (attribution = None \<or> attribution = Some a \<and> a \<in> set (map fst attributionPrefixMap))"
  proof -
    from that have "counterId \<noteq> []" "metrics = Some ms" "1 \<le> length ms" "length ms \<le> 20"
      "dimensions = None \<or> (\<exists>ds. dimensions = Some ds \<and> length ds \<le> 10)"
      "attribution = None \<or> (\<exists>a. attribution = Some a \<and> a \<in> set (map fst attributionPrefixMap))"
      by auto
    from sends [OF getDataByTime_url_accepts [OF this]] show ?thesis .
  qed
  from c1 c2 c3 c4 show ?thesis by blast
qed

theorem getDataByTime_list_bounds_witness:
  "(\<exists>msg. getDataByTime sampleRuntime (newConfig None None None) sampleNet ''1''
            (Some (replicate 21 ''ym:s:visits'')) None None None None None None None
          = (Inl (newError msg), []))
   \<and> (\<exists>msg. getDataByTime sampleRuntime (newConfig None None None) sampleNet ''1''
            (Some [''ym:s:visits'']) None None (Some (replicate 11 ''ym:s:browser'')) None None
            None None
          = (Inl (newError msg), []))
   \<and> (\<exists>url evs. getDataByTime sampleRuntime (newConfig None None None) sampleNet ''1''
            (Some (replicate 20 ''ym:s:visits'')) None None (Some (replicate 10 ''ym:s:browser''))
            None None None (Some ''last'')
          = makeRequest (newConfig None None None) sampleNet url 1
          \<and> snd (makeRequest (newConfig None None None) sampleNet url 1) = Fetch url # evs)"
  using
    getDataByTime_list_bounds [of "Some (replicate 21 ''ym:s:visits'')"
      "replicate 21 ''ym:s:visits''" sampleRuntime "newConfig None None None" sampleNet "''1''"
      None None None None None None None "[]" "[]"]
    getDataByTime_list_bounds [of "Some [''ym:s:visits'']" "[''ym:s:visits'']" sampleRuntime
      "newConfig None None None" sampleNet "''1''" None None
      "Some (replicate 11 ''ym:s:browser'')" None None None None "replicate 11 ''ym:s:browser''"
      "[]"]
    getDataByTime_list_bounds [of "Some (replicate 20 ''ym:s:visits'')"
      "replicate 20 ''ym:s:visits''" sampleRuntime "newConfig None None None" sampleNet "''1''"
      None None "Some (replicate 10 ''ym:s:browser'')" None None None "Some ''last''"
      "replicate 10 ''ym:s:browser''" "''last''"]
  by (simp add: attributionPrefixMap_def)






section \<open>Date validation\<close>




text \<open>
  C8, evaluated at a failing input. Both dates are supplied and pass the validation, and
  the URL that is fetched carries neither \<^verbatim>\<open>date1\<close> nor \<^verbatim>\<open>date2\<close>.
\<close>

theorem getVisits_discards_dates:
  "getVisits sampleRuntime (newConfig None None None) sampleNet ''101024''
     (Some ''2024-01-01'') (Some ''2024-01-31'') =
   (Inr ''{}'',
    [Fetch ''https://api-metrika.yandex.net/stat/v1/data?ids=101024&metrics=ym:s:visits''])"
  by (simp add: getVisits_def getVisits_url_def presentAndInvalid_def isValidDate_def
      dateRegex_def isDigit_def eval_nat_numeral sampleRuntime_def sampleParsesAsDate_def
      twoDigits_def request_def makeRequest.simps tryBlock_def ok_def sampleNet_def
      API_BASE_def API_REPORTS_def)

text \<open>
  The URL of \<^verbatim>\<open>getVisits\<close> never depends on the dates: whatever they are, the result is
  one of the three validation errors or the URL built from the counter id alone.
\<close>

lemma getVisits_url_cases:
  "getVisits_url rt counterId dateFrom dateTo \<in>
     {Inl counterIdError,
      Inl (newError ''dateFrom must be in YYYY-MM-DD format''),
      Inl (newError ''dateTo must be in YYYY-MM-DD format''),
      Inr (''https://api-metrika.yandex.net/stat/v1/data?ids='' @ counterId @ ''&metrics=ym:s:visits'')}"
  by (simp add: getVisits_url_def API_BASE_def API_REPORTS_def)

section \<open>Order of the alternatives in the dimension pattern\<close>

lemma buildDimension_spec_examples:
  "buildDimensionNameWithAttribution rt ''ym:s:UTMCampaign'' ''last'' = Inr ''ym:s:lastUTMCampaign''"
  "buildDimensionNameWithAttribution rt ''ym:s:automaticUTMCampaign'' ''first'' =
     Inr ''ym:s:firstUTMCampaign''"
  by (simp_all add: buildDimensionNameWithAttribution_def lookupPrefix_def attributionPrefixMap_def
     dimensionPattern_def basePattern_def recognizedPrefixes_def dotPlusEnd_def
     hasLineTerminator_def)

text \<open>
  C4, evaluated at failing inputs. The alternative \<^verbatim>\<open>last\<close> stands before \<^verbatim>\<open>lastsign\<close>
  in the pattern, and \<^verbatim>\<open>cross_device_last\<close> before \<^verbatim>\<open>cross_device_last_significant\<close>, so
  the shorter one matches and the rest of the old prefix stays in the name.
\<close>

theorem buildDimension_longer_prefix_partially_stripped:
  "buildDimensionNameWithAttribution rt ''ym:s:lastsignTrafficSource'' ''first'' =
     Inr ''ym:s:firstsignTrafficSource''
   \<and> buildDimensionNameWithAttribution rt ''ym:s:cross_device_last_significantUTMSource''
       ''automatic'' = Inr ''ym:s:automatic_significantUTMSource''"
  by (simp add: buildDimensionNameWithAttribution_def lookupPrefix_def attributionPrefixMap_def
     dimensionPattern_def recognizedPrefixes_def dotPlusEnd_def hasLineTerminator_def)

text \<open>
  Seven of the fourteen alternatives can never be the one that matches: each of them has
  an earlier alternative as a proper prefix, and whenever the longer one would match, the
  shorter one matches first.
\<close>

lemma firstAlternative_Some:
  "firstAlternative alts s = Some (a, r) \<Longrightarrow> a \<in> set alts \<and> s = a @ r \<and> dotPlusEnd r"
proof (induction alts)
  case Nil
  then show ?case by simp
next
  case (Cons b alts)
  show ?case
  proof (cases "prefix b s \<and> dotPlusEnd (drop (length b) s)")
    case True
    with Cons.prems have ab: "a = b" and r: "r = drop (length b) s" by auto
    from True obtain t where "s = b @ t" by (auto simp: prefix_def)
    with ab r True show ?thesis by simp
  next
    case False
    with Cons.prems have "firstAlternative alts s = Some (a, r)" by auto
    with Cons.IH show ?thesis by simp
  qed
qed

lemma firstAlternative_earlier:
  assumes "firstAlternative (pre @ a # post) s = Some (b, r)"
    and "prefix a s" and "dotPlusEnd (drop (length a) s)"
  shows "b \<in> set pre \<or> b = a"
  using assms
proof (induction pre)
  case Nil
  then show ?case by simp
next
  case (Cons p pre)
  then show ?case by (auto split: if_splits)
qed

lemma hasLineTerminator_Cons:
  "c \<notin> {CHR 0x0A, CHR 0x0D, CHR 0xE2} \<Longrightarrow> hasLineTerminator (c # r) = hasLineTerminator r"
  by (auto simp: hasLineTerminator_def)

lemma dotPlusEnd_append:
  "dotPlusEnd r \<Longrightarrow> \<forall>c \<in> set x. c \<notin> {CHR 0x0A, CHR 0x0D, CHR 0xE2} \<Longrightarrow> dotPlusEnd (x @ r)"
proof (induction x)
  case Nil
  then show ?case by simp
next
  case (Cons c x)
  then have "dotPlusEnd (x @ r)" by simp
  moreover from Cons.prems have "c \<notin> {CHR 0x0A, CHR 0x0D, CHR 0xE2}" by simp
  ultimately show ?case
    unfolding dotPlusEnd_def by (simp add: hasLineTerminator_Cons del: insert_iff)
qed

lemma shadowed:
  assumes "firstAlternative (pre @ a # post) (a @ x @ r) = Some (a @ x, r)"
    and "dotPlusEnd r" and "\<forall>c \<in> set x. c \<notin> {CHR 0x0A, CHR 0x0D, CHR 0xE2}"
  shows "a @ x \<in> set pre \<or> x = []"
proof -
  have "dotPlusEnd (drop (length a) (a @ x @ r))"
    using dotPlusEnd_append [OF assms(2,3)] by simp
  from firstAlternative_earlier [OF assms(1) _ this] show ?thesis by simp
qed

lemma dimensionPattern_reachable:
  assumes "dimensionPattern d = Some (a, r)"
  shows "a \<in> set recognizedPrefixes"
    and "a \<noteq> ''lastsign''"
    and "a \<noteq> ''last_yandex_direct_click''"
    and "a \<noteq> ''lastYandexDirectClick''"
    and "a \<noteq> ''cross_device_last_significant''"
    and "a \<noteq> ''cross_device_last_yandex_direct_click''"
    and "a \<noteq> ''crossDeviceLastSignificant''"
    and "a \<noteq> ''crossDeviceLastYandexDirectClick''"
proof -
  from assms have f: "firstAlternative recognizedPrefixes (drop 5 d) = Some (a, r)"
    by (auto simp: dimensionPattern_def split: if_splits)
  from firstAlternative_Some [OF f]
  have a: "a \<in> set recognizedPrefixes" and s: "drop 5 d = a @ r" and r: "dotPlusEnd r"
    by auto
  from f s have g: "firstAlternative recognizedPrefixes (a @ r) = Some (a, r)" by simp
  have last: "recognizedPrefixes = [''automatic''] @ ''last'' #
      [''first'', ''lastsign'', ''last_yandex_direct_click'', ''lastYandexDirectClick'',
       ''cross_device_first'', ''crossDeviceFirst'', ''cross_device_last'', ''crossDeviceLast'',
       ''cross_device_last_significant'', ''crossDeviceLastSignificant'',
       ''cross_device_last_yandex_direct_click'', ''crossDeviceLastYandexDirectClick'']"
    by (simp add: recognizedPrefixes_def)
  have cdl: "recognizedPrefixes =
      [''automatic'', ''last'', ''first'', ''lastsign'', ''last_yandex_direct_click'',
       ''lastYandexDirectClick'', ''cross_device_first'', ''crossDeviceFirst'']
      @ ''cross_device_last'' #
      [''crossDeviceLast'', ''cross_device_last_significant'', ''crossDeviceLastSignificant'',
       ''cross_device_last_yandex_direct_click'', ''crossDeviceLastYandexDirectClick'']"
    by (simp add: recognizedPrefixes_def)
  have cDL: "recognizedPrefixes =
      [''automatic'', ''last'', ''first'', ''lastsign'', ''last_yandex_direct_click'',
       ''lastYandexDirectClick'', ''cross_device_first'', ''crossDeviceFirst'',
       ''cross_device_last'']
      @ ''crossDeviceLast'' #
      [''cross_device_last_significant'', ''crossDeviceLastSignificant'',
       ''cross_device_last_yandex_direct_click'', ''crossDeviceLastYandexDirectClick'']"
    by (simp add: recognizedPrefixes_def)
  have no: False if "a = p @ x" and "x \<noteq> []"
    and "\<forall>c \<in> set x. c \<notin> {CHR 0x0A, CHR 0x0D, CHR 0xE2}"
    and "recognizedPrefixes = pre @ p # post" and "p @ x \<notin> set pre" for p x pre post
  proof -
    from g that(1,4) have "firstAlternative (pre @ p # post) (p @ x @ r) = Some (p @ x, r)"
      by simp
    from shadowed [OF this r that(3)] that(2,5) show False by simp
  qed
  show "a \<in> set recognizedPrefixes" by (rule a)
  show "a \<noteq> ''lastsign''"
    using no [of "''last''" "''sign''", OF _ _ _ last] by auto
  show "a \<noteq> ''last_yandex_direct_click''"
    using no [of "''last''" "''_yandex_direct_click''", OF _ _ _ last] by auto
  show "a \<noteq> ''lastYandexDirectClick''"
    using no [of "''last''" "''YandexDirectClick''", OF _ _ _ last] by auto
  show "a \<noteq> ''cross_device_last_significant''"
    using no [of "''cross_device_last''" "''_significant''", OF _ _ _ cdl] by auto
  show "a \<noteq> ''cross_device_last_yandex_direct_click''"
    using no [of "''cross_device_last''" "''_yandex_direct_click''", OF _ _ _ cdl] by auto
  show "a \<noteq> ''crossDeviceLastSignificant''"
    using no [of "''crossDeviceLast''" "''Significant''", OF _ _ _ cDL] by auto
  show "a \<noteq> ''crossDeviceLastYandexDirectClick''"
    using no [of "''crossDeviceLast''" "''YandexDirectClick''", OF _ _ _ cDL] by auto
qed

section \<open>Filter expressions in the URL\<close>

lemma takeWhile_upto: "c \<notin> set a \<Longrightarrow> takeWhile (\<lambda>x. x \<noteq> c) (a @ c # b) = a"
  by (induction a) auto

lemma dropWhile_upto: "c \<notin> set a \<Longrightarrow> dropWhile (\<lambda>x. x \<noteq> c) (a @ c # b) = c # b"
  by (induction a) auto





lemma hex_table:
  "list_all (\<lambda>n. hexValue (hexDigit n) = Some n \<and> uriUnreserved (hexDigit n)) [0..<16]"
  by (simp add: upt_rec hexValue_def hexDigit_def uriUnreserved_def)

lemma hexDigit_unreserved: "n < 16 \<Longrightarrow> uriUnreserved (hexDigit n)"
  using hex_table by (simp add: list_all_iff)

lemma hexValue_hexDigit: "n < 16 \<Longrightarrow> hexValue (hexDigit n) = Some n"
  using hex_table by (simp add: list_all_iff)

lemma of_char_below: "(of_char c :: nat) < 256"
  by (cases c) simp

lemma byte_nibbles: "(of_char c :: nat) div 16 < 16" "(of_char c :: nat) mod 16 < 16"
proof -
  have "(of_char c :: nat) < 16 * 16" using of_char_below [of c] by simp
  then show "(of_char c :: nat) div 16 < 16" by (simp only: div_less_iff_less_mult [symmetric] less_mult_imp_div_less)
  show "(of_char c :: nat) mod 16 < 16" by simp
qed

lemma percent_not_unreserved: "\<not> uriUnreserved CHR ''%''"
  by (simp add: uriUnreserved_def)

lemma encodeURIComponent_Cons:
  "encodeURIComponent (c # s) =
     (if uriUnreserved c then [c] else percentEncode c) @ encodeURIComponent s"
  by (simp add: encodeURIComponent_def)

lemma encodeURIComponent_chars:
  "x \<in> set (encodeURIComponent s) \<Longrightarrow> uriUnreserved x \<or> x = CHR ''%''"
proof (induction s)
  case Nil
  then show ?case by (simp add: encodeURIComponent_def)
next
  case (Cons c s)
  have "(of_char c :: nat) div 16 < 16" "(of_char c :: nat) mod 16 < 16"
    by (rule byte_nibbles)+
  then have "uriUnreserved (hexDigit ((of_char c :: nat) div 16))"
    "uriUnreserved (hexDigit ((of_char c :: nat) mod 16))"
    by (simp_all add: hexDigit_unreserved)
  with Cons show ?case
    by (auto simp: encodeURIComponent_Cons percentEncode_def split: if_splits)
qed

lemma percentDecode_unreserved:
  "c \<noteq> CHR ''%'' \<Longrightarrow> percentDecode (c # s) = map_option ((#) c) (percentDecode s)"
  by (cases s rule: percentDecode.cases) auto

lemma percentDecode_encodeURIComponent: "percentDecode (encodeURIComponent s) = Some s"
proof (induction s)
  case Nil
  then show ?case by (simp add: encodeURIComponent_def)
next
  case (Cons c s)
  show ?case
  proof (cases "uriUnreserved c")
    case True
    then have "c \<noteq> CHR ''%''" using percent_not_unreserved by auto
    with True Cons show ?thesis
      by (simp add: encodeURIComponent_Cons percentDecode_unreserved)
  next
    case False
    have lt: "(of_char c :: nat) div 16 < 16" "(of_char c :: nat) mod 16 < 16"
      by (rule byte_nibbles)+
    have "char_of (16 * ((of_char c :: nat) div 16) + (of_char c :: nat) mod 16) = c"
      by simp
    with False Cons show ?thesis
      by (simp add: encodeURIComponent_Cons percentEncode_def
          hexValue_hexDigit [OF lt(1)] hexValue_hexDigit [OF lt(2)])
  qed
qed


lemma encodeURIComponent_no_amp: "CHR ''&'' \<notin> set (encodeURIComponent s)"
  using encodeURIComponent_chars [of "CHR ''&''" s] by (auto simp: uriUnreserved_def)

lemma flag_default: "(case b of None \<Rightarrow> False | Some x \<Rightarrow> x) = (b = Some True)"
  by (cases b) auto

lemma encodeURIComponent_reserved:
  "set (encodeURIComponent s) \<inter> set ''&=?#+ '' = {}"
proof -
  have "x \<notin> set ''&=?#+ ''" if "x \<in> set (encodeURIComponent s)" for x
    using encodeURIComponent_chars [OF that] by (auto simp: uriUnreserved_def)
  then show ?thesis by blast
qed

text \<open>
  C7 as stated fails. Three of the six operations write a fixed filter text into the URL as
  it is. Its
  percent-encoded form would differ: the colons, the equals signs and the commas stay raw.
\<close>

theorem literal_filters_not_percent_encoded:
  "getOrganicSearchPerformance_url ''1'' None None =
     Inr ''https://api-metrika.yandex.net/stat/v1/data?dimensions=ym:s:searchEngine,ym:s:searchPhrase&metrics=ym:s:visits,ym:s:users,ym:s:pageviews&filters=ym:s:trafficSource=='organic'&id=1''
   \<and> encodeURIComponent (''ym:s:trafficSource=='organic'' @ apostrophe) =
       ''ym%3As%3AtrafficSource%3D%3D'organic'' @ apostrophe
   \<and> getTrafficSourcesTypes_url ''1'' =
     Inr ''https://api-metrika.yandex.net/stat/v1/data?dimensions=ym:s:lastTrafficSource&metrics=ym:s:visits,ym:s:users&filters=ym:s:lastTrafficSource=.('organic','direct','referral')&id=1&lang=ru''
   \<and> encodeURIComponent ''ym:s:lastTrafficSource=.('organic','direct','referral')'' =
       ''ym%3As%3AlastTrafficSource%3D.('organic'%2C'direct'%2C'referral')''
   \<and> getContentAnalyticsArticles_url ''1'' None None =
     Inr ''https://api-metrika.yandex.net/stat/v1/data?ids=1&dimensions=ym:s:publisherArticle&metrics=ym:s:publisherviews&filters=(ym:s:publisherArticle!n)&sort=-ym:s:publisherviews''
   \<and> encodeURIComponent ''(ym:s:publisherArticle!n)'' = ''(ym%3As%3ApublisherArticle!n)''"
  by (simp add: getOrganicSearchPerformance_url_def getTrafficSourcesTypes_url_def
      getContentAnalyticsArticles_url_def appendIf_def API_BASE_def API_REPORTS_def
      apostrophe_def encodeURIComponent_def uriUnreserved_def percentEncode_def hexDigit_def)

text \<open>
  C7, amended. \<^verbatim>\<open>getSearchEnginesData\<close>, \<^verbatim>\<open>getRegionalData\<close> and \<^verbatim>\<open>getPageDepthAnalysis\<close>
  compute their filter expression, and the value of the \<^verbatim>\<open>filters\<close> parameter of their
  URL is the whole expression under \<^verbatim>\<open>encodeURIComponent\<close>: it decodes back to the
  expression and contains no character that ends or splits a parameter.
  \<^verbatim>\<open>getTrafficSourcesTypes\<close>, \<^verbatim>\<open>getOrganicSearchPerformance\<close> and
  \<^verbatim>\<open>getContentAnalyticsArticles\<close> carry their fixed filter text verbatim.
\<close>

theorem computed_filters_percent_encoded:
  assumes "counterId \<noteq> []"
  shows "(\<exists>url. getSearchEnginesData_url counterId excludeRobots newUsersOnly = Inr url \<and>
            queryValue ''filters'' url =
              Some (encodeURIComponent (searchEnginesFilters (excludeRobots = Some True)
                      (newUsersOnly = Some True))))
       \<and> (\<exists>url. getRegionalData_url counterId cities = Inr url \<and>
            queryValue ''filters'' url =
              Some (encodeURIComponent
                      (regionalFilters (case cities of None \<Rightarrow> defaultCities | Some cs \<Rightarrow> cs))))
       \<and> (\<exists>url. getPageDepthAnalysis_url counterId minPages = Inr url \<and>
            queryValue ''filters'' url =
              Some (encodeURIComponent
                      (pageDepthFilters (case minPages of None \<Rightarrow> 5 | Some n \<Rightarrow> n))))
       \<and> percentDecode (encodeURIComponent f) = Some f
       \<and> set (encodeURIComponent f) \<inter> set ''&=?#+ '' = {}
       \<and> (\<exists>url. getTrafficSourcesTypes_url counterId = Inr url \<and>
            queryValue ''filters'' url =
              Some ''ym:s:lastTrafficSource=.('organic','direct','referral')'')
       \<and> (\<exists>url. getOrganicSearchPerformance_url counterId dateFrom dateTo = Inr url \<and>
            queryValue ''filters'' url = Some (''ym:s:trafficSource=='organic'' @ apostrophe))
       \<and> (CHR ''&'' \<notin> set counterId \<longrightarrow>
            (\<exists>url. getContentAnalyticsArticles_url counterId dateFrom dateTo = Inr url \<and>
               queryValue ''filters'' url = Some ''(ym:s:publisherArticle!n)''))"
proof -
  note url_simps = queryValue_def queryParams_def keyValue_def queryString_def splitOn.simps
    takeWhile_upto dropWhile_upto API_BASE_def API_REPORTS_def
  have 1: "\<exists>url. getSearchEnginesData_url counterId excludeRobots newUsersOnly = Inr url \<and>
            queryValue ''filters'' url =
              Some (encodeURIComponent (searchEnginesFilters (excludeRobots = Some True)
                      (newUsersOnly = Some True)))"
    using assms unfolding getSearchEnginesData_url_def flag_default
    by (simp add: url_simps encodeURIComponent_no_amp)
  have 2: "\<exists>url. getRegionalData_url counterId cities = Inr url \<and>
            queryValue ''filters'' url =
              Some (encodeURIComponent
                      (regionalFilters (case cities of None \<Rightarrow> defaultCities | Some cs \<Rightarrow> cs)))"
    using assms unfolding getRegionalData_url_def
    by (simp add: url_simps encodeURIComponent_no_amp)
  have 3: "\<exists>url. getPageDepthAnalysis_url counterId minPages = Inr url \<and>
            queryValue ''filters'' url =
              Some (encodeURIComponent
                      (pageDepthFilters (case minPages of None \<Rightarrow> 5 | Some n \<Rightarrow> n)))"
    using assms unfolding getPageDepthAnalysis_url_def
    by (simp add: url_simps encodeURIComponent_no_amp)
  have 4: "\<exists>url. getTrafficSourcesTypes_url counterId = Inr url \<and>
            queryValue ''filters'' url =
              Some ''ym:s:lastTrafficSource=.('organic','direct','referral')''"
    using assms unfolding getTrafficSourcesTypes_url_def
    by (simp add: url_simps)
  have 5: "\<exists>url. getOrganicSearchPerformance_url counterId dateFrom dateTo = Inr url \<and>
            queryValue ''filters'' url = Some (''ym:s:trafficSource=='organic'' @ apostrophe)"
    using assms unfolding getOrganicSearchPerformance_url_def
    by (simp add: url_simps apostrophe_def)
  have 6: "\<exists>url. getContentAnalyticsArticles_url counterId dateFrom dateTo = Inr url \<and>
               queryValue ''filters'' url = Some ''(ym:s:publisherArticle!n)''"
    if "CHR ''&'' \<notin> set counterId"
    using assms that unfolding getContentAnalyticsArticles_url_def
    by (simp add: url_simps)
  from 1 2 3 4 5 6 percentDecode_encodeURIComponent [of f] encodeURIComponent_reserved [of f]
  show ?thesis by blast
qed


theorem computed_filters_percent_encoded_witness:
  "''1'' \<noteq> []
   \<and> (\<exists>url. getSearchEnginesData_url ''1'' (Some True) None = Inr url \<and>
          queryValue ''filters'' url = Some (encodeURIComponent (searchEnginesFilters True False)))
   \<and> (\<exists>url. getRegionalData_url ''1'' None = Inr url \<and>
          queryValue ''filters'' url = Some (encodeURIComponent (regionalFilters defaultCities)))
   \<and> (\<exists>url. getPageDepthAnalysis_url ''1'' None = Inr url \<and>
          queryValue ''filters'' url = Some (encodeURIComponent (pageDepthFilters 5)))
   \<and> percentDecode (encodeURIComponent ''a=b&c'') = Some ''a=b&c''
   \<and> CHR ''&'' \<notin> set ''1''
   \<and> (\<exists>url. getContentAnalyticsArticles_url ''1'' None None = Inr url \<and>
          queryValue ''filters'' url = Some ''(ym:s:publisherArticle!n)'')"
proof -
  have h: "''1'' \<noteq> []" by simp
  have a: "CHR ''&'' \<notin> set ''1''" by simp
  from computed_filters_percent_encoded [OF h, of "Some True" None None None "''a=b&c''" None None]
    h a show ?thesis by simp
qed

section \<open>The attribution is sent in the dimension names only\<close>


















end
